theory Spec2Isabelle
  imports Complex_Main "HOL-Library.Char_ord" "HOL-Library.List_Lexorder" "HOL-Library.Product_Lexorder"
begin

section \<open>Data model of simulate\_hashing\_project.py\<close>

text \<open>
  The simulation script works on password records (rows of the table built by
  \<open>generate_passwords\<close>), on parameter dictionaries such as \<open>{"iterations": it}\<close>, and on
  attacker dictionaries, which are Python sets of strings.

  Python floats are modelled as real numbers: \<open>math.exp\<close> is \<open>exp\<close>, \<open>math.log2\<close> is
  \<open>log 2\<close>, \<open>float ** int\<close> is \<open>powi\<close> and \<open>float ** float\<close> with a positive base is
  \<open>powr\<close>. Rounding and overflow of IEEE doubles are therefore not part of the model.
  Strings are lists of 8-bit characters; \<open>str.lower\<close> and \<open>str.isalnum\<close> are modelled on
  the ASCII range, which contains every character the password generator and the
  dictionary builder can produce.
\<close>

datatype py_error = AttributeError | ValueError | UnboundLocalError | KeyError

record pw_record =
  pw_id :: int
  password :: string
  strength :: string

type_synonym param_dict = "string \<rightharpoonup> int"

definition dict_get :: "param_dict \<Rightarrow> string \<Rightarrow> int \<Rightarrow> int" where
  \<comment> \<open>\<open>d.get(key, default)\<close>\<close>
  "dict_get d k dflt = (case d k of None \<Rightarrow> dflt | Some v \<Rightarrow> v)"

definition param_get :: "param_dict option \<Rightarrow> string \<Rightarrow> int \<Rightarrow> py_error + int" where
  \<comment> \<open>\<open>param.get(key, default)\<close>, where \<open>param\<close> may be \<open>None\<close> (the default argument):
      \<open>None\<close> has no attribute \<open>get\<close>.\<close>
  "param_get p k dflt = (case p of None \<Rightarrow> Inl AttributeError | Some d \<Rightarrow> Inr (dict_get d k dflt))"

definition math_log2 :: "int \<Rightarrow> py_error + real" where
  \<comment> \<open>\<open>math.log2(x)\<close> raises \<open>ValueError\<close> (math domain error) unless \<open>x > 0\<close>.\<close>
  "math_log2 x = (if x \<le> 0 then Inl ValueError else Inr (log 2 (real_of_int x)))"

subsection \<open>String normalisation\<close>

definition is_upper :: "char \<Rightarrow> bool" where
  "is_upper c = (65 \<le> (of_char c :: nat) \<and> (of_char c :: nat) \<le> 90)"

definition is_lower :: "char \<Rightarrow> bool" where
  "is_lower c = (97 \<le> (of_char c :: nat) \<and> (of_char c :: nat) \<le> 122)"

definition is_digit :: "char \<Rightarrow> bool" where
  "is_digit c = (48 \<le> (of_char c :: nat) \<and> (of_char c :: nat) \<le> 57)"

definition isalnum :: "char \<Rightarrow> bool" where
  "isalnum c = (is_digit c \<or> is_upper c \<or> is_lower c)"

definition lower_char :: "char \<Rightarrow> char" where
  "lower_char c = (if is_upper c then char_of ((of_char c :: nat) + 32) else c)"


definition lower :: "string \<Rightarrow> string" where
  "lower s = map lower_char s"


definition simplified :: "string \<Rightarrow> string" where
  \<comment> \<open>\<open>"".join(ch for ch in pwstr.lower() if ch.isalnum())\<close>\<close>
  "simplified pwstr = filter isalnum (lower pwstr)"

definition in_dict :: "string \<Rightarrow> string set \<Rightarrow> bool" where
  \<comment> \<open>\<open>(pwstr in attacker_dict) or (simplified in attacker_dict)\<close>\<close>
  "in_dict pwstr attacker_dict = (pwstr \<in> attacker_dict \<or> simplified pwstr \<in> attacker_dict)"

section \<open>The hash-time and crack-probability models\<close>

definition fast_digests :: "string list" where
  "fast_digests = [''MD5'', ''SHA1'', ''SHA256'']"

definition base_hash_time_ms :: "string \<Rightarrow> param_dict option \<Rightarrow> py_error + real" where
  "base_hash_time_ms algo param =
     (if algo = ''MD5'' then Inr 0.05
      else if algo = ''SHA1'' then Inr 0.08
      else if algo = ''SHA256'' then Inr 0.12
      else if algo = ''PBKDF2'' then
        (case param_get param ''iterations'' 1000 of
           Inl e \<Rightarrow> Inl e
         | Inr it \<Rightarrow> Inr (0.00002 * real_of_int it))
      else if algo = ''bcrypt'' then
        (case param_get param ''cost'' 10 of
           Inl e \<Rightarrow> Inl e
         | Inr cost \<Rightarrow> Inr ((2 powi (cost - 6)) * 1.2))
      else if algo = ''Argon2'' then
        (case param_get param ''mem_kb'' 32 of
           Inl e \<Rightarrow> Inl e
         | Inr mem \<Rightarrow>
             (case math_log2 (mem + 1) of
                Inl e \<Rightarrow> Inl e
              | Inr l \<Rightarrow> Inr (0.5 * l)))
      else Inr 1.0)"

definition salt_factor :: "string \<Rightarrow> real" where
  \<comment> \<open>\<open>0.4 if algo in ["MD5","SHA1","SHA256"] else 0.7\<close>\<close>
  "salt_factor algo = (if algo \<in> set fast_digests then 0.4 else 0.7)"

definition crack_base :: "pw_record \<Rightarrow> string \<Rightarrow> param_dict option \<Rightarrow> string set \<Rightarrow> py_error + real" where
  \<comment> \<open>The value of the local variable \<open>base\<close> when line 101 is reached. If no branch of the
      \<open>if/elif\<close> chain assigns it, the first read of \<open>base\<close> (line 102 when salted, line 103
      otherwise) raises \<open>UnboundLocalError\<close>.\<close>
  "crack_base pw algo param attacker_dict =
     (if in_dict (password pw) attacker_dict then
        (if algo \<in> set fast_digests then
           Inr (if strength pw = ''weak'' then 0.95
                else (if strength pw = ''medium'' then 0.7 else 0.2))
         else if algo = ''PBKDF2'' then
           (case param_get param ''iterations'' 1000 of
              Inl e \<Rightarrow> Inl e
            | Inr it \<Rightarrow> Inr (0.9 * exp (- 0.00004 * real_of_int (it - 1000))))
         else if algo = ''bcrypt'' then
           (case param_get param ''cost'' 10 of
              Inl e \<Rightarrow> Inl e
            | Inr cost \<Rightarrow> Inr (0.9 * (0.85 powi (cost - 8))))
         else if algo = ''Argon2'' then
           (case param_get param ''mem_kb'' 32 of
              Inl e \<Rightarrow> Inl e
            | Inr mem \<Rightarrow>
                (case math_log2 (mem + 1) of
                   Inl e \<Rightarrow> Inl e
                 | Inr l \<Rightarrow> Inr (0.8 * (0.9 powr l))))
         else Inl UnboundLocalError)
      else
        Inr (if strength pw = ''weak'' then 0.05
             else (if strength pw = ''medium'' then 0.02 else 0.001)))"

definition crack_probability ::
  "pw_record \<Rightarrow> string \<Rightarrow> param_dict option \<Rightarrow> bool \<Rightarrow> string set \<Rightarrow> py_error + real" where
  "crack_probability pw algo param salted attacker_dict =
     (case crack_base pw algo param attacker_dict of
        Inl e \<Rightarrow> Inl e
      | Inr base \<Rightarrow>
          (let base' = (if salted then base * salt_factor algo else base)
           in Inr (max 0 (min 1 base'))))"

section \<open>Python's \<open>random\<close> module and integer formatting\<close>

text \<open>
  The module-level generator of \<open>random\<close> is global mutable state. It is modelled by an
  abstract state \<open>'s\<close> that every call takes and returns, and by a record of the four
  primitives the script calls. Nothing is assumed about the values they draw.
\<close>

record 's py_random =
  random_random :: "'s \<Rightarrow> real \<times> 's"
  random_choice :: "string list \<Rightarrow> 's \<Rightarrow> string \<times> 's"
  random_randint :: "int \<Rightarrow> int \<Rightarrow> 's \<Rightarrow> int \<times> 's"
  random_choices :: "string \<Rightarrow> int \<Rightarrow> 's \<Rightarrow> string \<times> 's"

definition digit_char :: "nat \<Rightarrow> char" where
  "digit_char d = char_of (48 + d)"

fun str_nat :: "nat \<Rightarrow> string" where
  "str_nat n = (if n < 10 then [digit_char n] else str_nat (n div 10) @ [digit_char (n mod 10)])"

declare str_nat.simps [simp del]

definition str_int :: "int \<Rightarrow> string" where
  \<comment> \<open>\<open>str(i)\<close> and the \<open>{i}\<close> of an f-string, for an integer\<close>
  "str_int i = (if i < 0 then CHR ''-'' # str_nat (nat (- i)) else str_nat (nat i))"

fun for_each :: "'a list \<Rightarrow> ('a \<Rightarrow> 'st \<Rightarrow> py_error + 'st) \<Rightarrow> 'st \<Rightarrow> py_error + 'st" where
  \<comment> \<open>\<open>for x in xs: body\<close>, where an exception raised by the body ends the loop\<close>
  "for_each [] body st = Inr st"
| "for_each (x # xs) body st =
     (case body x st of Inl e \<Rightarrow> Inl e | Inr st' \<Rightarrow> for_each xs body st')"

section \<open>Password generator\<close>

definition weak_bases :: "string list" where
  "weak_bases = [''password'', ''123456'', ''qwerty'', ''letmein'', ''welcome'', ''admin'',
                 ''iloveyou'', ''sunshine'', ''monkey'', ''dragon'']"

definition medium_bases :: "string list" where
  "medium_bases = [''football'', ''baseball'', ''computer'', ''coffee'', ''iloveu'', ''flower'',
                   ''purple'']"

definition strong_alphabet :: string where
  "strong_alphabet =
     ''abcdefghijklmnopqrstuvwxyzABCDEFGHIJKLMNOPQRSTUVWXYZ0123456789!@#$%^&*()-_=+''"

definition generate_one ::
  "'s py_random \<Rightarrow> nat \<Rightarrow> pw_record list \<times> 's \<Rightarrow> py_error + pw_record list \<times> 's" where
  \<comment> \<open>One iteration of the loop of \<open>generate_passwords\<close>\<close>
  "generate_one rng i st =
     (let (passwords, s0) = st;
          (r, s1) = random_random rng s0
      in if r < 0.5 then
           (let (b, s2) = random_choice rng weak_bases s1;
                (k, s3) = random_randint rng 0 999 s2
            in Inr (passwords @ [\<lparr>pw_id = int i, password = b @ str_int k, strength = ''weak''\<rparr>], s3))
         else if r < 0.85 then
           (let (b, s2) = random_choice rng medium_bases s1;
                (m, s3) = random_choice rng [''2020'', ''!'', ''$'', ''123'', ''_''] s2;
                (e, s4) = random_choice rng [''1'', ''99'', ''x''] s3
            in Inr (passwords @ [\<lparr>pw_id = int i, password = b @ m @ e, strength = ''medium''\<rparr>], s4))
         else
           (let (k, s2) = random_randint rng 12 20 s1;
                (pw, s3) = random_choices rng strong_alphabet k s2
            in Inr (passwords @ [\<lparr>pw_id = int i, password = pw, strength = ''strong''\<rparr>], s3)))"

definition generate_passwords :: "'s py_random \<Rightarrow> nat \<Rightarrow> 's \<Rightarrow> py_error + pw_record list \<times> 's" where
  "generate_passwords rng n s = for_each [0..<n] (generate_one rng) ([], s)"

section \<open>Attacker dictionary\<close>

definition seed_words :: "string list" where
  "seed_words = [''password'', ''123456'', ''qwerty'', ''letmein'', ''welcome'', ''admin'',
                 ''iloveyou'', ''sunshine'', ''monkey'', ''dragon'', ''football'', ''baseball'',
                 ''computer'', ''coffee'', ''flower'', ''purple'', ''iloveu'']"

definition suffixed_words :: "string list" where
  \<comment> \<open>the loop over a snapshot of the seed set: \<open>[w+"123", w+"2020", w+"!"]\<close> for each seed\<close>
  "suffixed_words = concat (map (\<lambda>w. [w @ ''123'', w @ ''2020'', w @ ''!'']) seed_words)"

definition filler_words :: "string list" where
  \<comment> \<open>\<open>[f"word{i}" for i in range(5000)]\<close>\<close>
  "filler_words = map (\<lambda>i. ''word'' @ str_int (int i)) [0..<5000]"

definition dict_words :: "string set" where
  "dict_words = set seed_words \<union> set suffixed_words \<union> set filler_words"

definition iteration_of :: "string list \<Rightarrow> string set \<Rightarrow> bool" where
  \<comment> \<open>\<open>dict_list = list(dict_words)\<close> lists every element of the set once. The order is the
      iteration order of a Python set of strings, which follows the string hashes of the
      running interpreter and is left open here.\<close>
  "iteration_of dict_list S = (distinct dict_list \<and> set dict_list = S)"

definition small_dict :: "string list \<Rightarrow> string set" where
  "small_dict dict_list = set (take 500 dict_list)"

definition large_dict :: "string list \<Rightarrow> string set" where
  "large_dict dict_list = set (take 4000 dict_list)"

section \<open>Trial loop\<close>

record algorithm =
  alg_name :: string
  alg_type :: string
  alg_iterations :: "int list option"
  alg_costs :: "int list option"
  alg_mem_kb :: "int list option"

definition algorithms :: "algorithm list" where
  "algorithms =
     [\<lparr>alg_name = ''MD5'', alg_type = ''fast'', alg_iterations = None, alg_costs = None, alg_mem_kb = None\<rparr>,
      \<lparr>alg_name = ''SHA1'', alg_type = ''fast'', alg_iterations = None, alg_costs = None, alg_mem_kb = None\<rparr>,
      \<lparr>alg_name = ''SHA256'', alg_type = ''fast'', alg_iterations = None, alg_costs = None, alg_mem_kb = None\<rparr>,
      \<lparr>alg_name = ''PBKDF2'', alg_type = ''iter'', alg_iterations = Some [1000, 10000, 50000],
        alg_costs = None, alg_mem_kb = None\<rparr>,
      \<lparr>alg_name = ''bcrypt'', alg_type = ''cost'', alg_iterations = None, alg_costs = Some [8, 10, 12],
        alg_mem_kb = None\<rparr>,
      \<lparr>alg_name = ''Argon2'', alg_type = ''memory'', alg_iterations = None, alg_costs = None,
        alg_mem_kb = Some [32, 256, 1024]\<rparr>]"

record trial_row =
  r_algorithm :: string
  r_param :: string
  r_salted :: bool
  r_dict :: string
  r_strength :: string
  r_hash_time_ms :: real
  r_cracked :: bool

definition trial_body ::
  "'s py_random \<Rightarrow> string \<Rightarrow> string \<Rightarrow> param_dict option \<Rightarrow> param_dict option \<Rightarrow> bool \<Rightarrow>
   string \<times> string set \<Rightarrow> pw_record \<Rightarrow> trial_row list \<times> 's \<Rightarrow> py_error + trial_row list \<times> 's" where
  \<comment> \<open>The body of the innermost loop, which the source repeats in each of the four
      branches: \<open>tparam\<close> is what \<open>base_hash_time_ms\<close> receives and \<open>pparam\<close> what
      \<open>crack_probability\<close> receives (the fast branch passes nothing and \<open>{}\<close>).\<close>
  "trial_body rng name label tparam pparam salted dv pw st =
     (case base_hash_time_ms name tparam of
        Inl e \<Rightarrow> Inl e
      | Inr t \<Rightarrow>
          (case crack_probability pw name pparam salted (snd dv) of
             Inl e \<Rightarrow> Inl e
           | Inr prob \<Rightarrow>
               (let (u, s') = random_random rng (snd st)
                in Inr (fst st @ [\<lparr>r_algorithm = name, r_param = label, r_salted = salted,
                                    r_dict = fst dv, r_strength = strength pw,
                                    r_hash_time_ms = t, r_cracked = (prob > u)\<rparr>], s'))))"

definition config_trials ::
  "'s py_random \<Rightarrow> string \<Rightarrow> string \<Rightarrow> param_dict option \<Rightarrow> param_dict option \<Rightarrow>
   pw_record list \<Rightarrow> string set \<Rightarrow> string set \<Rightarrow> trial_row list \<times> 's \<Rightarrow> py_error + trial_row list \<times> 's" where
  \<comment> \<open>the loops over the salting flag, the two dictionaries and the password table\<close>
  "config_trials rng name label tparam pparam pw_df small large =
     for_each [False, True] (\<lambda>salted.
       for_each [(''small'', small), (''large'', large)] (\<lambda>dv.
         for_each pw_df (trial_body rng name label tparam pparam salted dv)))"

definition alg_branch ::
  "'s py_random \<Rightarrow> pw_record list \<Rightarrow> string set \<Rightarrow> string set \<Rightarrow> algorithm \<Rightarrow>
   trial_row list \<times> 's \<Rightarrow> py_error + trial_row list \<times> 's" where
  \<comment> \<open>the body of \<open>for alg in algorithms\<close>\<close>
  "alg_branch rng pw_df small large alg =
     (if alg_name alg = ''PBKDF2'' then
        (case alg_iterations alg of
           None \<Rightarrow> (\<lambda>st. Inl KeyError)
         | Some its \<Rightarrow> for_each its (\<lambda>it.
             let param = Some [''iterations'' \<mapsto> it]
             in config_trials rng (alg_name alg) (''iters='' @ str_int it) param param pw_df small large))
      else if alg_name alg = ''bcrypt'' then
        (case alg_costs alg of
           None \<Rightarrow> (\<lambda>st. Inl KeyError)
         | Some costs \<Rightarrow> for_each costs (\<lambda>cost.
             let param = Some [''cost'' \<mapsto> cost]
             in config_trials rng (alg_name alg) (''cost='' @ str_int cost) param param pw_df small large))
      else if alg_name alg = ''Argon2'' then
        (case alg_mem_kb alg of
           None \<Rightarrow> (\<lambda>st. Inl KeyError)
         | Some mems \<Rightarrow> for_each mems (\<lambda>mem.
             let param = Some [''mem_kb'' \<mapsto> mem]
             in config_trials rng (alg_name alg) (''mem='' @ str_int mem @ ''KB'') param param pw_df small large))
      else
        config_trials rng (alg_name alg) [] None (Some Map.empty) pw_df small large)"

definition trial_loop ::
  "'s py_random \<Rightarrow> pw_record list \<Rightarrow> string set \<Rightarrow> string set \<Rightarrow> 's \<Rightarrow> py_error + trial_row list \<times> 's" where
  "trial_loop rng pw_df small large s = for_each algorithms (alg_branch rng pw_df small large) ([], s)"

section \<open>A concrete random source\<close>

definition fixed_rng :: "real \<Rightarrow> nat py_random" where
  \<comment> \<open>A random source for running the model on concrete inputs: the state counts the
      calls, \<open>random()\<close> always returns \<open>u\<close>, and the other primitives pick by the count.\<close>
  "fixed_rng u = \<lparr>random_random = (\<lambda>s. (u, Suc s)),
                  random_choice = (\<lambda>xs s. (xs ! (s mod length xs), Suc s)),
                  random_randint = (\<lambda>a b s. (a + int s mod (b - a + 1), Suc s)),
                  random_choices = (\<lambda>pop k s. (replicate (nat k) (pop ! (s mod length pop)), Suc s))\<rparr>"

section \<open>Aggregation\<close>

text \<open>
  \<open>df.groupby(["algorithm","param","salted","dict"]).agg(...)\<close> of pandas: one summary row
  per distinct key, in ascending key order; \<open>count\<close> is the number of rows of the group,
  \<open>sum\<close> of a boolean column the number of \<open>True\<close> entries, and \<open>mean\<close> the sum of the
  column (booleans as 0 and 1) divided by the count.
\<close>

type_synonym group_key = "string \<times> string \<times> bool \<times> string"

record summary_row =
  s_algorithm :: string
  s_param :: string
  s_salted :: bool
  s_dict :: string
  s_total :: nat
  s_cracked_sum :: nat
  s_cracked_rate :: real
  s_avg_hash_time_ms :: real

definition row_key :: "trial_row \<Rightarrow> group_key" where
  "row_key r = (r_algorithm r, r_param r, r_salted r, r_dict r)"

definition mean :: "real list \<Rightarrow> real" where
  "mean xs = sum_list xs / real (length xs)"

definition group_keys :: "trial_row list \<Rightarrow> group_key list" where
  "group_keys rows = sort (remdups (map row_key rows))"

definition aggregate :: "trial_row list \<Rightarrow> group_key \<Rightarrow> summary_row" where
  "aggregate rows k =
     (let g = filter (\<lambda>r. row_key r = k) rows
      in \<lparr>s_algorithm = fst k, s_param = fst (snd k), s_salted = fst (snd (snd k)),
          s_dict = snd (snd (snd k)),
          s_total = length g,
          s_cracked_sum = length (filter r_cracked g),
          s_cracked_rate = mean (map (\<lambda>r. if r_cracked r then 1 else 0) g),
          s_avg_hash_time_ms = mean (map r_hash_time_ms g)\<rparr>)"

definition summarise :: "trial_row list \<Rightarrow> summary_row list" where
  "summarise rows = map (aggregate rows) (group_keys rows)"

section \<open>The script as a whole\<close>

datatype artifact =
    PasswordTable "pw_record list"
  | TextLines "string list"
  | TrialTable "trial_row list"
  | SummaryTable "summary_row list"
  | BarChart "(string \<times> real) list"

fun csv_columns :: "artifact \<Rightarrow> string list" where
  \<comment> \<open>the header line that \<open>to_csv(..., index=False)\<close> writes for each kind of table\<close>
  "csv_columns (PasswordTable _) = [''id'', ''password'', ''strength'']"
| "csv_columns (TrialTable _) =
     [''algorithm'', ''param'', ''salted'', ''dict'', ''strength'', ''hash_time_ms'', ''cracked'']"
| "csv_columns (SummaryTable _) =
     [''algorithm'', ''param'', ''salted'', ''dict'', ''total'', ''cracked_sum'', ''cracked_rate'',
      ''avg_hash_time_ms'']"
| "csv_columns (TextLines _) = []"
| "csv_columns (BarChart _) = []"

definition simulate ::
  "'s py_random \<Rightarrow> string list \<Rightarrow> 's \<Rightarrow> py_error + (string \<times> artifact) list \<times> 's" where
  \<comment> \<open>The top-level statements of the script in their order. \<open>dict_list\<close> is the value of
      \<open>list(dict_words)\<close>. The result lists the files written under \<open>./results\<close>, each
      with what was written to it. The table \<open>df\<close> of trial rows is built and aggregated;
      the script has no statement that writes it to a file.\<close>
  "simulate rng dict_list s0 =
     (case generate_passwords rng 2000 s0 of
        Inl e \<Rightarrow> Inl e
      | Inr (pw_df, s1) \<Rightarrow>
          (let out1 = [(''results/passwords.csv'', PasswordTable pw_df)];
               out2 = out1 @ [(''results/dictionary.txt'', TextLines dict_list)]
           in case trial_loop rng pw_df (small_dict dict_list) (large_dict dict_list) s1 of
                Inl e \<Rightarrow> Inl e
              | Inr (rows, s2) \<Rightarrow>
                  (let df = TrialTable rows;
                       summary = summarise rows;
                       out3 = out2 @ [(''results/summary.csv'', SummaryTable summary)];
                       plotdf = sort_key s_avg_hash_time_ms
                                  (filter (\<lambda>g. s_salted g = False \<and> s_dict g = ''large'') summary);
                       labels = map (\<lambda>g. s_algorithm g @ '' '' @ s_param g) plotdf;
                       out4 = out3 @ [(''results/hash_time_by_algo.png'',
                                       BarChart (zip labels (map s_avg_hash_time_ms plotdf)))];
                       out5 = out4 @ [(''results/cracked_rate_by_algo.png'',
                                       BarChart (zip labels (map s_cracked_rate plotdf)))]
                   in Inr (out5, s2))))"

section \<open>The iteration space of the trial loop\<close>

text \<open>
  The loop nest visits, for every algorithm, every configuration label of that algorithm,
  both salting flags, both dictionaries and every password, in this order. The following
  functions list the group keys and the (key, password) tuples in the order of the visits;
  they are what the rows produced by the loop are compared with.
\<close>

definition row_shape :: "trial_row \<Rightarrow> group_key \<times> string" where
  "row_shape r = (row_key r, r_strength r)"

definition alg_labels :: "algorithm \<Rightarrow> string list" where
  \<comment> \<open>the \<open>param\<close> column of each configuration of an algorithm\<close>
  "alg_labels alg =
     (if alg_name alg = ''PBKDF2'' then
        (case alg_iterations alg of None \<Rightarrow> [] | Some its \<Rightarrow> map (\<lambda>it. ''iters='' @ str_int it) its)
      else if alg_name alg = ''bcrypt'' then
        (case alg_costs alg of None \<Rightarrow> [] | Some costs \<Rightarrow> map (\<lambda>cost. ''cost='' @ str_int cost) costs)
      else if alg_name alg = ''Argon2'' then
        (case alg_mem_kb alg of None \<Rightarrow> [] | Some mems \<Rightarrow> map (\<lambda>mem. ''mem='' @ str_int mem @ ''KB'') mems)
      else [[]])"

definition config_keys :: "string \<Rightarrow> string \<Rightarrow> group_key list" where
  "config_keys name label =
     concat (map (\<lambda>salted. map (\<lambda>dn. (name, label, salted, dn)) [''small'', ''large'']) [False, True])"

definition branch_keys :: "algorithm \<Rightarrow> group_key list" where
  "branch_keys alg = concat (map (config_keys (alg_name alg)) (alg_labels alg))"

definition all_keys :: "group_key list" where
  "all_keys = concat (map branch_keys algorithms)"

definition trial_tuples :: "group_key list \<Rightarrow> pw_record list \<Rightarrow> (group_key \<times> pw_record) list" where
  "trial_tuples ks pw_df = concat (map (\<lambda>k. map (\<lambda>pw. (k, pw)) pw_df) ks)"

definition tuple_shape :: "group_key \<times> pw_record \<Rightarrow> group_key \<times> string" where
  "tuple_shape t = (fst t, strength (snd t))"

section \<open>Properties of the crack-probability model\<close>



text \<open>
  Claim C1. A weak password that the dictionary test accepts has crack probability exactly
  0.95 under MD5 without salt, whatever the parameter argument is (\<open>None\<close> or \<open>{}\<close>), and
  the trial row appended by the fast-digest branch of the loop stores \<open>cracked = True\<close>
  exactly when the single draw of \<open>random.random()\<close> is below 0.95.
\<close>

theorem weak_md5_hit:
  assumes "strength pw = ''weak''" and "in_dict (password pw) D"
  shows "crack_probability pw ''MD5'' param False D = Inr 0.95 \<and>
         (\<exists>row. trial_body rng ''MD5'' [] None (Some Map.empty) False (dn, D) pw (rows, s)
                  = Inr (rows @ [row], snd (random_random rng s)) \<and>
                (r_cracked row \<longleftrightarrow> fst (random_random rng s) < 0.95))"
proof -
  have p: "crack_probability pw ''MD5'' q False D = Inr 0.95" for q
    using assms by (simp add: crack_probability_def crack_base_def fast_digests_def)
  have t: "base_hash_time_ms ''MD5'' None = Inr 0.05"
    by (simp add: base_hash_time_ms_def)
  show ?thesis
    by (simp add: p t trial_body_def split_beta Let_def)
qed

theorem weak_md5_hit_witness:
  "crack_probability \<lparr>pw_id = 0, password = ''password0'', strength = ''weak''\<rparr> ''MD5'' None False
     {''password0''} = Inr 0.95 \<and>
   (\<exists>row. trial_body (fixed_rng 0.5) ''MD5'' [] None (Some Map.empty) False (''small'', {''password0''})
        \<lparr>pw_id = 0, password = ''password0'', strength = ''weak''\<rparr> ([], 0) = Inr ([row], 1) \<and> r_cracked row) \<and>
   (\<exists>row. trial_body (fixed_rng 0.99) ''MD5'' [] None (Some Map.empty) False (''small'', {''password0''})
        \<lparr>pw_id = 0, password = ''password0'', strength = ''weak''\<rparr> ([], 0) = Inr ([row], 1) \<and> \<not> r_cracked row)"
  using weak_md5_hit [of "\<lparr>pw_id = 0, password = ''password0'', strength = ''weak''\<rparr>" "{''password0''}"
                          None "fixed_rng 0.5" "''small''" "[]" 0]
        weak_md5_hit [of "\<lparr>pw_id = 0, password = ''password0'', strength = ''weak''\<rparr>" "{''password0''}"
                          None "fixed_rng 0.99" "''small''" "[]" 0]
  by (simp add: in_dict_def fixed_rng_def)

text \<open>
  Claim C6. Whenever \<open>crack_probability\<close> returns, the value it returns lies in the
  interval from 0 to 1: the last line clamps it with \<open>max(0, min(1, base))\<close>, and the trial
  loop compares this returned value with the draw.
\<close>

theorem probability_clamped:
  "crack_probability pw algo param salted D = Inr p \<Longrightarrow> 0 \<le> p \<and> p \<le> 1"
  by (auto simp: crack_probability_def Let_def split: sum.splits)

theorem probability_clamped_witness:
  "crack_probability \<lparr>pw_id = 0, password = ''password123'', strength = ''weak''\<rparr> ''bcrypt''
     (Some [''cost'' \<mapsto> 5]) True {''password123''} = Inr 1 \<and> (0::real) \<le> 1 \<and> (1::real) \<le> 1"
  using probability_clamped [of "\<lparr>pw_id = 0, password = ''password123'', strength = ''weak''\<rparr>" "''bcrypt''"
                                 "Some [''cost'' \<mapsto> 5]" True "{''password123''}" 1]
  by (simp add: crack_probability_def crack_base_def fast_digests_def param_get_def dict_get_def
        in_dict_def salt_factor_def power_int_minus power3_eq_cube)

subsection \<open>From the base value to the returned probability\<close>

lemma cp_of_base:
  "crack_base pw algo param D = Inr x \<Longrightarrow>
   crack_probability pw algo param salted D
     = Inr (max 0 (min 1 (if salted then x * salt_factor algo else x)))"
  by (simp add: crack_probability_def)
















lemma base_total:
  assumes "algo \<in> {''MD5'', ''SHA1'', ''SHA256'', ''PBKDF2'', ''bcrypt'', ''Argon2''}"
    and "algo = ''Argon2'' \<longrightarrow> 0 \<le> dict_get d ''mem_kb'' 32"
  shows "\<not> isl (crack_base pw algo (Some d) D)"
  using assms
  apply (elim insertE emptyE)
  apply (simp_all add: crack_base_def fast_digests_def param_get_def math_log2_def)
  done


subsection \<open>String normalisation\<close>








subsection \<open>Parameters, salting, strength and the unknown algorithm\<close>






text \<open>
  Claim C9. The strength label of a password in the dictionary does not change the crack
  probability under PBKDF2, bcrypt or Argon2; under the fast digests it selects 0.95, 0.7
  or 0.2, and for a password outside the dictionary it selects 0.05, 0.02 or 0.001.
\<close>

theorem strength_only_for_fast:
  "(in_dict (password pw) D \<and> algo \<in> {''PBKDF2'', ''bcrypt'', ''Argon2''} \<longrightarrow>
      crack_probability (pw\<lparr>strength := s1\<rparr>) algo param salted D
        = crack_probability (pw\<lparr>strength := s2\<rparr>) algo param salted D) \<and>
   (in_dict (password pw) D \<and> algo \<in> {''MD5'', ''SHA1'', ''SHA256''} \<longrightarrow>
      crack_probability (pw\<lparr>strength := ''weak''\<rparr>) algo param False D = Inr 0.95 \<and>
      crack_probability (pw\<lparr>strength := ''medium''\<rparr>) algo param False D = Inr 0.7 \<and>
      crack_probability (pw\<lparr>strength := ''strong''\<rparr>) algo param False D = Inr 0.2) \<and>
   (\<not> in_dict (password pw) D \<longrightarrow>
      crack_probability (pw\<lparr>strength := ''weak''\<rparr>) algo param False D = Inr 0.05 \<and>
      crack_probability (pw\<lparr>strength := ''medium''\<rparr>) algo param False D = Inr 0.02 \<and>
      crack_probability (pw\<lparr>strength := ''strong''\<rparr>) algo param False D = Inr 0.001)"
  by (auto simp: crack_probability_def crack_base_def fast_digests_def)

theorem strength_only_for_fast_witness:
  "in_dict ''password123'' {''password123''} \<and>
   crack_probability \<lparr>pw_id = 0, password = ''password123'', strength = ''weak''\<rparr> ''bcrypt''
       (Some [''cost'' \<mapsto> 8]) False {''password123''}
     = crack_probability \<lparr>pw_id = 0, password = ''password123'', strength = ''strong''\<rparr> ''bcrypt''
       (Some [''cost'' \<mapsto> 8]) False {''password123''} \<and>
   crack_probability \<lparr>pw_id = 0, password = ''password123'', strength = ''weak''\<rparr> ''SHA1'' None False
       {''password123''} = Inr 0.95 \<and>
   crack_probability \<lparr>pw_id = 0, password = ''password123'', strength = ''strong''\<rparr> ''SHA1'' None False
       {''password123''} = Inr 0.2 \<and>
   \<not> in_dict ''hunter2'' {''password123''} \<and>
   crack_probability \<lparr>pw_id = 0, password = ''hunter2'', strength = ''medium''\<rparr> ''bcrypt'' None False
       {''password123''} = Inr 0.02"
proof -
  have miss: "\<not> in_dict ''hunter2'' {''password123''}"
    by code_simp
  show ?thesis
  using strength_only_for_fast [of "\<lparr>pw_id = 0, password = ''password123'', strength = ''weak''\<rparr>"
      "{''password123''}" "''bcrypt''" "''weak''" "Some [''cost'' \<mapsto> 8]" False "''strong''"]
    strength_only_for_fast [of "\<lparr>pw_id = 0, password = ''password123'', strength = ''weak''\<rparr>"
      "{''password123''}" "''SHA1''" "''weak''" None False "''strong''"]
    strength_only_for_fast [of "\<lparr>pw_id = 0, password = ''hunter2'', strength = ''weak''\<rparr>"
      "{''password123''}" "''bcrypt''" "''weak''" None False "''strong''"] miss
  by (simp add: in_dict_def)
qed






section \<open>The trial loop and the summary\<close>

lemma for_each_blocks:
  assumes "\<And>x rows s. x \<in> set xs \<Longrightarrow>
             \<exists>blk s'. body x (rows, s) = Inr (rows @ blk, s') \<and> map sh blk = G x"
  shows "\<exists>new s'. for_each xs body (rows0, s0) = Inr (rows0 @ new, s') \<and>
                  map sh new = concat (map G xs)"
  using assms
proof (induction xs arbitrary: rows0 s0)
  case Nil
  then show ?case by simp
next
  case (Cons x xs)
  obtain blk s1 where b: "body x (rows0, s0) = Inr (rows0 @ blk, s1)" "map sh blk = G x"
    using Cons.prems [of x rows0 s0] by auto
  obtain new s2 where n: "for_each xs body (rows0 @ blk, s1) = Inr ((rows0 @ blk) @ new, s2)"
      "map sh new = concat (map G xs)"
    using Cons.IH [of "rows0 @ blk" s1] Cons.prems by auto
  show ?case
    using b n by (intro exI [of _ "blk @ new"] exI [of _ s2]) simp
qed

lemma trial_body_row:
  assumes t: "base_hash_time_ms name tparam = Inr t"
    and p: "\<And>pw salted D. \<not> isl (crack_probability pw name pparam salted D)"
  shows "\<exists>blk s'. trial_body rng name label tparam pparam salted dv pw (rows, s) = Inr (rows @ blk, s') \<and>
                  map row_shape blk = [((name, label, salted, fst dv), strength pw)]"
proof -
  obtain q where q: "crack_probability pw name pparam salted (snd dv) = Inr q"
    using p [of pw salted "snd dv"] by (cases "crack_probability pw name pparam salted (snd dv)") simp_all
  show ?thesis
    by (simp add: trial_body_def t q split_beta row_shape_def row_key_def)
qed

lemma config_trials_rows:
  assumes t: "base_hash_time_ms name tparam = Inr t"
    and p: "\<And>pw salted D. \<not> isl (crack_probability pw name pparam salted D)"
  shows "\<exists>new s'. config_trials rng name label tparam pparam pw_df small large (rows0, s0)
                    = Inr (rows0 @ new, s') \<and>
                  map row_shape new = map tuple_shape (trial_tuples (config_keys name label) pw_df)"
proof -
  have inner: "\<exists>blk s'. for_each pw_df (trial_body rng name label tparam pparam salted dv) (rows, s)
                  = Inr (rows @ blk, s') \<and>
                map row_shape blk = concat (map (\<lambda>pw. [((name, label, salted, fst dv), strength pw)]) pw_df)"
    for salted dv rows s
    by (rule for_each_blocks) (rule trial_body_row [OF t p])
  have mid: "\<exists>blk s'. for_each [(''small'', small), (''large'', large)]
                 (\<lambda>dv. for_each pw_df (trial_body rng name label tparam pparam salted dv)) (rows, s)
                  = Inr (rows @ blk, s') \<and>
                map row_shape blk = concat (map (\<lambda>dv. concat (map (\<lambda>pw. [((name, label, salted, fst dv), strength pw)]) pw_df))
                     [(''small'', small), (''large'', large)])"
    for salted rows s
    by (rule for_each_blocks) (rule inner)
  have outer: "\<exists>new s'. for_each [False, True] (\<lambda>salted. for_each [(''small'', small), (''large'', large)]
                 (\<lambda>dv. for_each pw_df (trial_body rng name label tparam pparam salted dv))) (rows0, s0)
                  = Inr (rows0 @ new, s') \<and>
                map row_shape new = concat (map (\<lambda>salted. concat (map (\<lambda>dv. concat (map (\<lambda>pw. [((name, label, salted, fst dv), strength pw)]) pw_df))
                     [(''small'', small), (''large'', large)])) [False, True])"
    by (rule for_each_blocks) (rule mid)
  have eq: "concat (map (\<lambda>salted. concat (map (\<lambda>dv. concat (map (\<lambda>pw. [((name, label, salted, fst dv), strength pw)]) pw_df))
                     [(''small'', small), (''large'', large)])) [False, True])
          = map tuple_shape (trial_tuples (config_keys name label) pw_df)"
    by (simp add: trial_tuples_def config_keys_def tuple_shape_def comp_def concat_map_singleton)
  show ?thesis
    unfolding config_trials_def using outer eq by simp
qed

lemma cp_total:
  assumes "algo \<in> {''MD5'', ''SHA1'', ''SHA256'', ''PBKDF2'', ''bcrypt'', ''Argon2''}"
    and "algo = ''Argon2'' \<longrightarrow> 0 \<le> dict_get d ''mem_kb'' 32"
  shows "\<not> isl (crack_probability pw algo (Some d) salted D)"
proof -
  have "\<not> isl (crack_base pw algo (Some d) D)"
    using assms by (rule base_total)
  then obtain x where "crack_base pw algo (Some d) D = Inr x"
    by (cases "crack_base pw algo (Some d) D") simp_all
  then show ?thesis by (simp add: cp_of_base)
qed

lemma trial_tuples_concat:
  "trial_tuples (concat kss) pw_df = concat (map (\<lambda>ks. trial_tuples ks pw_df) kss)"
  by (induction kss) (simp_all add: trial_tuples_def)

lemma shapes_concat:
  "concat (map (\<lambda>x. map tuple_shape (trial_tuples (config_keys name (lab x)) pw_df)) xs)
     = map tuple_shape (trial_tuples (concat (map (config_keys name) (map lab xs))) pw_df)"
  by (simp add: trial_tuples_concat map_concat comp_def)

lemma fast_branch:
  assumes n: "alg_name alg \<in> {''MD5'', ''SHA1'', ''SHA256''}"
  shows "\<exists>new s'. alg_branch rng pw_df small large alg (rows0, s0) = Inr (rows0 @ new, s') \<and>
           map row_shape new = map tuple_shape (trial_tuples (branch_keys alg) pw_df)"
proof -
  have "\<not> isl (base_hash_time_ms (alg_name alg) None)"
    using n by (auto simp: base_hash_time_ms_def)
  then obtain t where t: "base_hash_time_ms (alg_name alg) None = Inr t"
    by (cases "base_hash_time_ms (alg_name alg) None") simp_all
  have p: "\<not> isl (crack_probability pw (alg_name alg) (Some Map.empty) salted D)" for pw salted D
    using n by (intro cp_total) auto
  have k: "branch_keys alg = config_keys (alg_name alg) []"
    using n by (auto simp: branch_keys_def alg_labels_def)
  have b: "alg_branch rng pw_df small large alg
             = config_trials rng (alg_name alg) [] None (Some Map.empty) pw_df small large"
    using n by (auto simp: alg_branch_def)
  show ?thesis
    unfolding b k by (rule config_trials_rows [OF t p])
qed

lemma pbkdf2_branch:
  assumes n: "alg_name alg = ''PBKDF2''" and c: "alg_iterations alg = Some its"
  shows "\<exists>new s'. alg_branch rng pw_df small large alg (rows0, s0) = Inr (rows0 @ new, s') \<and>
           map row_shape new = map tuple_shape (trial_tuples (branch_keys alg) pw_df)"
proof -
  have step: "\<exists>blk s'. config_trials rng ''PBKDF2'' (''iters='' @ str_int it) (Some [''iterations'' \<mapsto> it])
                  (Some [''iterations'' \<mapsto> it]) pw_df small large (rows, s) = Inr (rows @ blk, s') \<and>
                map row_shape blk = map tuple_shape (trial_tuples (config_keys ''PBKDF2'' (''iters='' @ str_int it)) pw_df)"
    for it rows s
  proof -
    have t: "base_hash_time_ms ''PBKDF2'' (Some [''iterations'' \<mapsto> it]) = Inr (0.00002 * real_of_int it)"
      by (simp add: base_hash_time_ms_def param_get_def dict_get_def)
    have p: "\<not> isl (crack_probability pw ''PBKDF2'' (Some [''iterations'' \<mapsto> it]) salted D)" for pw salted D
      by (intro cp_total) auto
    show ?thesis by (rule config_trials_rows [OF t p])
  qed
  have "\<exists>new s'. for_each its (\<lambda>it. config_trials rng ''PBKDF2'' (''iters='' @ str_int it)
                  (Some [''iterations'' \<mapsto> it]) (Some [''iterations'' \<mapsto> it]) pw_df small large) (rows0, s0)
            = Inr (rows0 @ new, s') \<and>
          map row_shape new = concat (map (\<lambda>it. map tuple_shape
              (trial_tuples (config_keys ''PBKDF2'' (''iters='' @ str_int it)) pw_df)) its)"
    by (rule for_each_blocks) (rule step)
  then show ?thesis
    by (simp add: alg_branch_def n c Let_def branch_keys_def alg_labels_def shapes_concat)
qed

lemma bcrypt_branch:
  assumes n: "alg_name alg = ''bcrypt''" and c: "alg_costs alg = Some costs"
  shows "\<exists>new s'. alg_branch rng pw_df small large alg (rows0, s0) = Inr (rows0 @ new, s') \<and>
           map row_shape new = map tuple_shape (trial_tuples (branch_keys alg) pw_df)"
proof -
  have step: "\<exists>blk s'. config_trials rng ''bcrypt'' (''cost='' @ str_int cost) (Some [''cost'' \<mapsto> cost])
                  (Some [''cost'' \<mapsto> cost]) pw_df small large (rows, s) = Inr (rows @ blk, s') \<and>
                map row_shape blk = map tuple_shape (trial_tuples (config_keys ''bcrypt'' (''cost='' @ str_int cost)) pw_df)"
    for cost rows s
  proof -
    have t: "base_hash_time_ms ''bcrypt'' (Some [''cost'' \<mapsto> cost]) = Inr ((2 powi (cost - 6)) * 1.2)"
      by (simp add: base_hash_time_ms_def param_get_def dict_get_def)
    have p: "\<not> isl (crack_probability pw ''bcrypt'' (Some [''cost'' \<mapsto> cost]) salted D)" for pw salted D
      by (intro cp_total) auto
    show ?thesis by (rule config_trials_rows [OF t p])
  qed
  have "\<exists>new s'. for_each costs (\<lambda>cost. config_trials rng ''bcrypt'' (''cost='' @ str_int cost)
                  (Some [''cost'' \<mapsto> cost]) (Some [''cost'' \<mapsto> cost]) pw_df small large) (rows0, s0)
            = Inr (rows0 @ new, s') \<and>
          map row_shape new = concat (map (\<lambda>cost. map tuple_shape
              (trial_tuples (config_keys ''bcrypt'' (''cost='' @ str_int cost)) pw_df)) costs)"
    by (rule for_each_blocks) (rule step)
  then show ?thesis
    by (simp add: alg_branch_def n c Let_def branch_keys_def alg_labels_def shapes_concat)
qed

lemma argon2_branch:
  assumes n: "alg_name alg = ''Argon2''" and c: "alg_mem_kb alg = Some mems" and nn: "\<forall>m \<in> set mems. 0 \<le> m"
  shows "\<exists>new s'. alg_branch rng pw_df small large alg (rows0, s0) = Inr (rows0 @ new, s') \<and>
           map row_shape new = map tuple_shape (trial_tuples (branch_keys alg) pw_df)"
proof -
  have step: "\<exists>blk s'. config_trials rng ''Argon2'' (''mem='' @ str_int mem @ ''KB'') (Some [''mem_kb'' \<mapsto> mem])
                  (Some [''mem_kb'' \<mapsto> mem]) pw_df small large (rows, s) = Inr (rows @ blk, s') \<and>
                map row_shape blk = map tuple_shape (trial_tuples (config_keys ''Argon2'' (''mem='' @ str_int mem @ ''KB'')) pw_df)"
    if m: "mem \<in> set mems" for mem rows s
  proof -
    have m0: "0 \<le> mem" using nn m by blast
    have t: "base_hash_time_ms ''Argon2'' (Some [''mem_kb'' \<mapsto> mem]) = Inr (0.5 * log 2 (real_of_int (mem + 1)))"
      using m0 by (simp add: base_hash_time_ms_def param_get_def dict_get_def math_log2_def)
    have p: "\<not> isl (crack_probability pw ''Argon2'' (Some [''mem_kb'' \<mapsto> mem]) salted D)" for pw salted D
      using m0 by (intro cp_total) (auto simp: dict_get_def)
    show ?thesis by (rule config_trials_rows [OF t p])
  qed
  have "\<exists>new s'. for_each mems (\<lambda>mem. config_trials rng ''Argon2'' (''mem='' @ str_int mem @ ''KB'')
                  (Some [''mem_kb'' \<mapsto> mem]) (Some [''mem_kb'' \<mapsto> mem]) pw_df small large) (rows0, s0)
            = Inr (rows0 @ new, s') \<and>
          map row_shape new = concat (map (\<lambda>mem. map tuple_shape
              (trial_tuples (config_keys ''Argon2'' (''mem='' @ str_int mem @ ''KB'')) pw_df)) mems)"
    by (rule for_each_blocks) (rule step)
  then show ?thesis
    by (simp add: alg_branch_def n c Let_def branch_keys_def alg_labels_def shapes_concat)
qed

lemma branch_rows:
  assumes "alg \<in> set algorithms"
  shows "\<exists>new s'. alg_branch rng pw_df small large alg (rows0, s0) = Inr (rows0 @ new, s') \<and>
           map row_shape new = map tuple_shape (trial_tuples (branch_keys alg) pw_df)"
proof -
  consider (fast) "alg_name alg \<in> {''MD5'', ''SHA1'', ''SHA256''}"
    | (pb) "alg_name alg = ''PBKDF2''" "alg_iterations alg = Some [1000, 10000, 50000]"
    | (bc) "alg_name alg = ''bcrypt''" "alg_costs alg = Some [8, 10, 12]"
    | (ar) "alg_name alg = ''Argon2''" "alg_mem_kb alg = Some [32, 256, 1024]"
    using assms by (auto simp: algorithms_def)
  then show ?thesis
  proof cases
    case fast then show ?thesis by (rule fast_branch)
  next
    case pb then show ?thesis by (rule pbkdf2_branch)
  next
    case bc then show ?thesis by (rule bcrypt_branch)
  next
    case ar then show ?thesis by (rule argon2_branch) simp
  qed
qed

lemma trial_loop_rows:
  "\<exists>rows s'. trial_loop rng pw_df small large s = Inr (rows, s') \<and>
             map row_shape rows = map tuple_shape (trial_tuples all_keys pw_df)"
proof -
  have "\<exists>new s'. for_each algorithms (alg_branch rng pw_df small large) ([], s) = Inr ([] @ new, s') \<and>
          map row_shape new = concat (map (\<lambda>alg. map tuple_shape (trial_tuples (branch_keys alg) pw_df)) algorithms)"
    by (rule for_each_blocks) (rule branch_rows)
  then show ?thesis
    by (simp add: trial_loop_def all_keys_def trial_tuples_concat map_concat comp_def)
qed

lemma digit_chars:
  "digit_char 0 = CHR ''0''" "digit_char 1 = CHR ''1''" "digit_char 2 = CHR ''2''"
  "digit_char 3 = CHR ''3''" "digit_char 4 = CHR ''4''" "digit_char 5 = CHR ''5''"
  "digit_char 6 = CHR ''6''" "digit_char 7 = CHR ''7''" "digit_char 8 = CHR ''8''"
  "digit_char 9 = CHR ''9''"
  by code_simp+

lemma digit_char_Suc0: "digit_char (Suc 0) = CHR ''1''"
  using digit_chars(2) by simp

lemma str_nat_digit: "n < 10 \<Longrightarrow> str_nat n = [digit_char n]"
  by (simp add: str_nat.simps)

lemma str_nat_step: "10 \<le> n \<Longrightarrow> str_nat n = str_nat (n div 10) @ [digit_char (n mod 10)]"
  by (subst str_nat.simps) simp

lemma str_int_labels:
  "str_int 1000 = ''1000''" "str_int 10000 = ''10000''" "str_int 50000 = ''50000''"
  "str_int 8 = ''8''" "str_int 10 = ''10''" "str_int 12 = ''12''"
  "str_int 32 = ''32''" "str_int 256 = ''256''" "str_int 1024 = ''1024''"
  by (simp_all add: str_int_def str_nat_digit str_nat_step digit_chars digit_char_Suc0)

lemma all_keys_distinct: "distinct all_keys"
  by (simp add: all_keys_def algorithms_def branch_keys_def alg_labels_def config_keys_def str_int_labels)

lemma all_keys_length: "length all_keys = 48"
  by (simp add: all_keys_def algorithms_def branch_keys_def alg_labels_def config_keys_def)

lemma branch_keys_length: "length (branch_keys alg) = length (alg_labels alg) * 2 * 2"
proof -
  have "length (concat (map (config_keys n) ls)) = length ls * 2 * 2" for n ls
    by (induction ls) (simp_all add: config_keys_def)
  then show ?thesis by (simp add: branch_keys_def)
qed

lemma trial_tuples_length: "length (trial_tuples ks pw_df) = length ks * length pw_df"
  by (induction ks) (simp_all add: trial_tuples_def)

lemma trial_tuples_set: "set (trial_tuples ks pw_df) = set ks \<times> set pw_df"
  by (auto simp: trial_tuples_def)

lemma trial_tuples_distinct:
  assumes "distinct ks" "distinct pw_df"
  shows "distinct (trial_tuples ks pw_df)"
  using assms
proof (induction ks)
  case Nil
  then show ?case by (simp add: trial_tuples_def)
next
  case (Cons k ks)
  have inj: "inj_on (\<lambda>pw. (k, pw)) (set pw_df)" by (simp add: inj_on_def)
  have d: "distinct (map (\<lambda>pw. (k, pw)) pw_df)"
    using Cons.prems inj by (simp add: distinct_map)
  have "set (map (\<lambda>pw. (k, pw)) pw_df) \<inter> set (trial_tuples ks pw_df) = {}"
    using Cons.prems by (auto simp: trial_tuples_set)
  moreover have "trial_tuples (k # ks) pw_df = map (\<lambda>pw. (k, pw)) pw_df @ trial_tuples ks pw_df"
    by (simp add: trial_tuples_def)
  ultimately show ?case using d Cons by simp
qed

lemma trial_tuples_group:
  assumes "distinct ks"
  shows "length (filter (\<lambda>t. fst t = k) (trial_tuples ks pw_df))
           = (if k \<in> set ks then length pw_df else 0)"
  using assms
proof (induction ks)
  case Nil
  then show ?case by (simp add: trial_tuples_def)
next
  case (Cons a ks)
  have split: "trial_tuples (a # ks) pw_df = map (\<lambda>pw. (a, pw)) pw_df @ trial_tuples ks pw_df"
    by (simp add: trial_tuples_def)
  have blk: "length (filter (\<lambda>t. fst t = k) (map (\<lambda>pw. (a, pw)) pw_df)) = (if a = k then length pw_df else 0)"
    by (induction pw_df) simp_all
  have "length (filter (\<lambda>t. fst t = k) (trial_tuples (a # ks) pw_df))
          = (if a = k then length pw_df else 0)
            + length (filter (\<lambda>t. fst t = k) (trial_tuples ks pw_df))"
    by (simp only: split filter_append length_append blk)
  also have "\<dots> = (if a = k then length pw_df else 0) + (if k \<in> set ks then length pw_df else 0)"
    using Cons by simp
  finally show ?case
    using Cons.prems by auto
qed

lemma group_size:
  assumes sh: "map row_shape rows = map tuple_shape (trial_tuples all_keys pw_df)"
  shows "length (filter (\<lambda>r. row_key r = k) rows) = (if k \<in> set all_keys then length pw_df else 0)"
proof -
  have "length (filter (\<lambda>r. row_key r = k) rows)
          = length (filter (\<lambda>x. fst x = k) (map row_shape rows))"
    by (induction rows) (simp_all add: row_shape_def)
  also have "\<dots> = length (filter (\<lambda>t. fst t = k) (trial_tuples all_keys pw_df))"
    unfolding sh by (induction "trial_tuples all_keys pw_df") (simp_all add: filter_map comp_def tuple_shape_def)
  also have "\<dots> = (if k \<in> set all_keys then length pw_df else 0)"
    by (rule trial_tuples_group [OF all_keys_distinct])
  finally show ?thesis .
qed

lemma group_keys_set: "set (group_keys rows) = row_key ` set rows"
  by (simp add: group_keys_def)

lemma row_keys_known:
  assumes sh: "map row_shape rows = map tuple_shape (trial_tuples all_keys pw_df)"
  shows "row_key ` set rows \<subseteq> set all_keys"
proof -
  have "row_key ` set rows = fst ` set (map row_shape rows)"
    by (force simp: row_shape_def)
  also have "\<dots> = fst ` set (map tuple_shape (trial_tuples all_keys pw_df))"
    by (simp only: sh)
  also have "\<dots> \<subseteq> set all_keys"
    by (auto simp: tuple_shape_def trial_tuples_set)
  finally show ?thesis .
qed

lemma mean_indicator:
  "mean (map (\<lambda>r. if r_cracked r then 1 else 0) g) = real (length (filter r_cracked g)) / real (length g)"
proof -
  have "sum_list (map (\<lambda>r. if r_cracked r then 1 else 0) g) = real (length (filter r_cracked g))"
    by (induction g) simp_all
  then show ?thesis by (simp add: mean_def)
qed

lemma summary_groups:
  assumes sh: "map row_shape rows = map tuple_shape (trial_tuples all_keys pw_df)"
    and g: "g \<in> set (summarise rows)"
  shows "s_total g = length pw_df \<and> s_cracked_rate g = real (s_cracked_sum g) / real (s_total g)"
proof -
  have "g \<in> aggregate rows ` set (group_keys rows)"
    using g by (simp add: summarise_def)
  then obtain k where k: "k \<in> row_key ` set rows" "g = aggregate rows k"
    unfolding group_keys_set by blast
  have "k \<in> set all_keys" using k row_keys_known [OF sh] by blast
  then have "length (filter (\<lambda>r. row_key r = k) rows) = length pw_df"
    using group_size [OF sh, of k] by simp
  then show ?thesis
    by (simp add: k aggregate_def Let_def mean_indicator)
qed

lemma generate_one_row:
  "\<exists>blk s'. generate_one rng i (rows, s) = Inr (rows @ blk, s') \<and> map pw_id blk = [int i]"
  by (simp add: generate_one_def split_beta Let_def)

lemma generate_passwords_ids:
  "\<exists>pw_df s'. generate_passwords rng n s = Inr (pw_df, s') \<and> map pw_id pw_df = map int [0..<n]"
proof -
  have "\<exists>new s'. for_each [0..<n] (generate_one rng) ([], s) = Inr ([] @ new, s') \<and>
          map pw_id new = concat (map (\<lambda>i. [int i]) [0..<n])"
    by (rule for_each_blocks) (rule generate_one_row)
  then show ?thesis
    by (simp add: generate_passwords_def concat_map_singleton)
qed

lemma label_counts: "map (length \<circ> alg_labels) algorithms = [1, 1, 1, 3, 3, 3]"
  by (simp add: algorithms_def alg_labels_def)

lemma distinct_ids: "distinct (map int [0..<n])"
  by (simp add: distinct_map inj_on_def)

lemma generate_passwords_distinct:
  "\<exists>pws s1. generate_passwords rng n s = Inr (pws, s1) \<and> length pws = n \<and> distinct pws"
proof -
  obtain pws s1 where p: "generate_passwords rng n s = Inr (pws, s1)"
      and ids: "map pw_id pws = map int [0..<n]"
    using generate_passwords_ids [of rng n s] by blast
  have "length (map pw_id pws) = n" by (simp only: ids length_map length_upt diff_zero)
  then have l: "length pws = n" by simp
  have "distinct (map pw_id pws)"
    unfolding ids by (rule distinct_ids)
  then have "distinct pws" by (simp add: distinct_map)
  then show ?thesis using p l by blast
qed

lemma row_keys_all:
  assumes sh: "map row_shape rows = map tuple_shape (trial_tuples all_keys pw_df)"
    and ne: "pw_df \<noteq> []"
  shows "row_key ` set rows = set all_keys"
proof
  show "row_key ` set rows \<subseteq> set all_keys"
    by (rule row_keys_known [OF sh])
next
  show "set all_keys \<subseteq> row_key ` set rows"
  proof
    fix k assume k: "k \<in> set all_keys"
    obtain pw where pw: "pw \<in> set pw_df" using ne by (cases pw_df) auto
    have "(k, pw) \<in> set (trial_tuples all_keys pw_df)"
      using k pw by (simp add: trial_tuples_set)
    then have "tuple_shape (k, pw) \<in> set (map tuple_shape (trial_tuples all_keys pw_df))"
      by (simp only: set_map) (rule imageI)
    then have "(k, strength pw) \<in> set (map row_shape rows)"
      by (simp only: sh tuple_shape_def fst_conv snd_conv)
    then obtain r where "r \<in> set rows" "row_shape r = (k, strength pw)"
      by (auto simp: image_iff)
    then have "r \<in> set rows" "row_key r = k" by (simp_all add: row_shape_def)
    then show "k \<in> row_key ` set rows" by blast
  qed
qed

lemma group_count:
  assumes sh: "map row_shape rows = map tuple_shape (trial_tuples all_keys pw_df)"
    and ne: "pw_df \<noteq> []"
  shows "length (summarise rows) = 48"
proof -
  have keys: "set (map row_key rows) = set all_keys"
    using row_keys_all [OF sh ne] by simp
  have "length (summarise rows) = length (remdups (map row_key rows))"
    by (simp add: summarise_def group_keys_def)
  also have "\<dots> = card (set (map row_key rows))"
    by (rule length_remdups_card_conv)
  also have "\<dots> = length all_keys"
    unfolding keys using all_keys_distinct by (rule distinct_card)
  finally show ?thesis by (simp only: all_keys_length)
qed

text \<open>
  Claim C5. For any password table, the trial loop returns (no call of the hash-time or the
  crack-probability model raises), and it appends exactly one row for each tuple of
  (group key, password) in the order of the loop nest: 48 group keys
  (algorithm, parameter label, salting flag, dictionary name), so 12 configurations times
  2 times 2 rows per password, and for each algorithm of \<open>algorithms\<close> its number of
  configurations (1 for the fast digests, 3 for the others) times 2 times 2 rows per
  password. The tuples are pairwise different when the password records are. Every group
  of the summary has \<open>total\<close> equal to the number of password records (each group holds
  every password once) and \<open>cracked_rate = cracked_sum / total\<close>. The generator called
  with its default size returns 2000 pairwise different records.
\<close>

theorem trial_rows_and_summary:
  "(\<exists>rows s'. trial_loop rng pw_df small large s = Inr (rows, s') \<and>
      length rows = length pw_df * 12 * 2 * 2 \<and>
      map row_shape rows = map tuple_shape (trial_tuples all_keys pw_df) \<and>
      (distinct pw_df \<longrightarrow> distinct (trial_tuples all_keys pw_df)) \<and>
      (\<forall>g \<in> set (summarise rows).
          s_total g = length pw_df \<and>
          s_cracked_rate g = real (s_cracked_sum g) / real (s_total g)) \<and>
      (pw_df \<noteq> [] \<longrightarrow> length (summarise rows) = 48)) \<and>
   (\<forall>alg \<in> set algorithms.
      \<exists>new s1. alg_branch rng pw_df small large alg (rows0, s0) = Inr (rows0 @ new, s1) \<and>
        length new = length pw_df * length (alg_labels alg) * 2 * 2 \<and>
        map row_shape new = map tuple_shape (trial_tuples (branch_keys alg) pw_df)) \<and>
   map (length \<circ> alg_labels) algorithms = [1, 1, 1, 3, 3, 3] \<and>
   (\<exists>pws s1. generate_passwords rng 2000 s = Inr (pws, s1) \<and> length pws = 2000 \<and> distinct pws)"
proof (intro conjI ballI)
  obtain rows s' where r: "trial_loop rng pw_df small large s = Inr (rows, s')"
      and sh: "map row_shape rows = map tuple_shape (trial_tuples all_keys pw_df)"
    using trial_loop_rows [of rng pw_df small large s] by blast
  have "length rows = length (map row_shape rows)" by simp
  also have "\<dots> = length all_keys * length pw_df"
    by (simp only: sh length_map trial_tuples_length)
  finally have len: "length rows = length pw_df * 12 * 2 * 2"
    by (simp add: all_keys_length)
  have d: "distinct pw_df \<longrightarrow> distinct (trial_tuples all_keys pw_df)"
    using all_keys_distinct by (simp add: trial_tuples_distinct)
  have g: "\<forall>g \<in> set (summarise rows).
          s_total g = length pw_df \<and> s_cracked_rate g = real (s_cracked_sum g) / real (s_total g)"
    using summary_groups [OF sh] by blast
  have c: "pw_df \<noteq> [] \<longrightarrow> length (summarise rows) = 48"
    using group_count [OF sh] by blast
  show "\<exists>rows s'. trial_loop rng pw_df small large s = Inr (rows, s') \<and>
      length rows = length pw_df * 12 * 2 * 2 \<and>
      map row_shape rows = map tuple_shape (trial_tuples all_keys pw_df) \<and>
      (distinct pw_df \<longrightarrow> distinct (trial_tuples all_keys pw_df)) \<and>
      (\<forall>g \<in> set (summarise rows).
          s_total g = length pw_df \<and>
          s_cracked_rate g = real (s_cracked_sum g) / real (s_total g)) \<and>
      (pw_df \<noteq> [] \<longrightarrow> length (summarise rows) = 48)"
    using r len sh d g c by blast
next
  fix alg assume a: "alg \<in> set algorithms"
  obtain new s1 where n: "alg_branch rng pw_df small large alg (rows0, s0) = Inr (rows0 @ new, s1)"
      and sh: "map row_shape new = map tuple_shape (trial_tuples (branch_keys alg) pw_df)"
    using branch_rows [OF a, of rng pw_df small large rows0 s0] by blast
  have "length new = length (map row_shape new)" by simp
  also have "\<dots> = length (branch_keys alg) * length pw_df"
    by (simp only: sh length_map trial_tuples_length)
  finally have "length new = length pw_df * length (alg_labels alg) * 2 * 2"
    by (simp add: branch_keys_length)
  then show "\<exists>new s1. alg_branch rng pw_df small large alg (rows0, s0) = Inr (rows0 @ new, s1) \<and>
        length new = length pw_df * length (alg_labels alg) * 2 * 2 \<and>
        map row_shape new = map tuple_shape (trial_tuples (branch_keys alg) pw_df)"
    using n sh by blast
next
  show "map (length \<circ> alg_labels) algorithms = [1, 1, 1, 3, 3, 3]"
    by (rule label_counts)
next
  show "\<exists>pws s1. generate_passwords rng 2000 s = Inr (pws, s1) \<and> length pws = 2000 \<and> distinct pws"
    by (rule generate_passwords_distinct)
qed

theorem trial_rows_and_summary_witness:
  "\<exists>rows s'. trial_loop (fixed_rng (1/2)) [\<lparr>pw_id = 0, password = ''password123'', strength = ''weak''\<rparr>]
        {''password123''} {} 0 = Inr (rows, s') \<and>
      length rows = 48 \<and> length (summarise rows) = 48 \<and>
      (\<exists>g. g \<in> set (summarise rows) \<and> s_total g = 1 \<and> s_cracked_rate g = real (s_cracked_sum g))"
proof -
  have "\<exists>rows s'. trial_loop (fixed_rng (1/2)) [\<lparr>pw_id = 0, password = ''password123'', strength = ''weak''\<rparr>]
        {''password123''} {} 0 = Inr (rows, s') \<and>
      length rows = length [\<lparr>pw_id = 0, password = ''password123'', strength = ''weak''\<rparr>] * 12 * 2 * 2 \<and>
      map row_shape rows = map tuple_shape (trial_tuples all_keys [\<lparr>pw_id = 0, password = ''password123'', strength = ''weak''\<rparr>]) \<and>
      (distinct [\<lparr>pw_id = 0, password = ''password123'', strength = ''weak''\<rparr>] \<longrightarrow>
         distinct (trial_tuples all_keys [\<lparr>pw_id = 0, password = ''password123'', strength = ''weak''\<rparr>])) \<and>
      (\<forall>g \<in> set (summarise rows).
          s_total g = length [\<lparr>pw_id = 0, password = ''password123'', strength = ''weak''\<rparr>] \<and>
          s_cracked_rate g = real (s_cracked_sum g) / real (s_total g)) \<and>
      ([\<lparr>pw_id = 0, password = ''password123'', strength = ''weak''\<rparr>] \<noteq> [] \<longrightarrow> length (summarise rows) = 48)"
    using trial_rows_and_summary [of "fixed_rng (1/2)" "[\<lparr>pw_id = 0, password = ''password123'', strength = ''weak''\<rparr>]"
        "{''password123''}" "{}" 0 "[]" 0]
    by (rule conjunct1)
  then obtain rows s' where r: "trial_loop (fixed_rng (1/2)) [\<lparr>pw_id = 0, password = ''password123'', strength = ''weak''\<rparr>]
        {''password123''} {} 0 = Inr (rows, s')"
    and l: "length rows = length [\<lparr>pw_id = 0, password = ''password123'', strength = ''weak''\<rparr>] * 12 * 2 * 2"
    and g: "\<forall>g \<in> set (summarise rows).
          s_total g = length [\<lparr>pw_id = 0, password = ''password123'', strength = ''weak''\<rparr>] \<and>
          s_cracked_rate g = real (s_cracked_sum g) / real (s_total g)"
    and c: "[\<lparr>pw_id = 0, password = ''password123'', strength = ''weak''\<rparr>] \<noteq> [] \<longrightarrow> length (summarise rows) = 48"
    by blast
  have c': "length (summarise rows) = 48" using c by simp
  have l': "length rows = 48" using l by simp
  from c' obtain x where x: "x \<in> set (summarise rows)"
    by (cases "summarise rows") auto
  with g have "s_total x = 1 \<and> s_cracked_rate x = real (s_cracked_sum x)" by auto
  with r l' c' x show ?thesis by blast
qed

end
